theory Spec2Isabelle
  imports Complex_Main
begin

section \<open>Go library functions used by the deployer\<close>

text \<open>
  Go strings are byte sequences; they are modelled as \<^typ>\<open>string\<close>. A Go \<open>error\<close>
  is a \<^typ>\<open>string option\<close>: \<open>None\<close> is \<open>nil\<close>, \<open>Some msg\<close> carries the message that
  \<open>%v\<close> prints.
\<close>

type_synonym error = "string option"

definition nl :: string where
  "nl = [CHR 0x0A]"

text \<open>\<open>strings.HasPrefix\<close> and \<open>strings.Contains\<close>.\<close>

fun hasPrefix :: "string \<Rightarrow> string \<Rightarrow> bool" where
  "hasPrefix s [] = True"
| "hasPrefix [] (p # ps) = False"
| "hasPrefix (c # cs) (p # ps) = (c = p \<and> hasPrefix cs ps)"

fun containsStr :: "string \<Rightarrow> string \<Rightarrow> bool" where
  "containsStr [] sub = (sub = [])"
| "containsStr (c # cs) sub = (hasPrefix (c # cs) sub \<or> containsStr cs sub)"

text \<open>
  \<open>strings.Split(s, sep)\<close> for a separator of one byte, the only form the deployer uses
  (\<open>"/"\<close>, \<open>":"\<close>, \<open>"."\<close>). The result always has at least one element; a string without
  the separator comes back as the single element of the result.
\<close>

fun splitAcc :: "char \<Rightarrow> string \<Rightarrow> string \<Rightarrow> string list" where
  "splitAcc sep acc [] = [rev acc]"
| "splitAcc sep acc (c # cs) =
     (if c = sep then rev acc # splitAcc sep [] cs else splitAcc sep (c # acc) cs)"

definition Split :: "string \<Rightarrow> char \<Rightarrow> string list" where
  "Split s sep = splitAcc sep [] s"

text \<open>\<open>strings.SplitN(s, sep, 2)\<close> for a separator of one byte: cut at the first separator.\<close>

definition SplitN2 :: "string \<Rightarrow> char \<Rightarrow> string list" where
  "SplitN2 s sep =
     (if sep \<in> set s
      then [takeWhile (\<lambda>c. c \<noteq> sep) s, tl (dropWhile (\<lambda>c. c \<noteq> sep) s)]
      else [s])"

text \<open>\<open>strings.Join\<close>.\<close>

fun Join :: "string list \<Rightarrow> string \<Rightarrow> string" where
  "Join [] sep = []"
| "Join [x] sep = x"
| "Join (x # y # ys) sep = x @ sep @ Join (y # ys) sep"

text \<open>
  \<open>strings.TrimSpace\<close>: leading and trailing Unicode white space is removed. On the
  bytes of a string the white space code points are the one-byte characters tab, line
  feed, vertical tab, form feed, carriage return and space; the two-byte encodings of
  U+0085 and U+00A0; and the three-byte encodings of U+1680, U+2000 to U+200A, U+2028,
  U+2029, U+202F, U+205F and U+3000. Any other byte, also one that does not start a
  well-formed encoding, ends the trimming. The trailing end is trimmed on the reversed
  string.
\<close>

definition isSpace1 :: "char \<Rightarrow> bool" where
  "isSpace1 a = (a \<in> set [CHR 0x09, CHR 0x0A, CHR 0x0B, CHR 0x0C, CHR 0x0D, CHR 0x20])"

definition isSpace2 :: "char \<Rightarrow> char \<Rightarrow> bool" where
  "isSpace2 a b = (a = CHR 0xC2 \<and> b \<in> set [CHR 0x85, CHR 0xA0])"

definition isSpace3 :: "char \<Rightarrow> char \<Rightarrow> char \<Rightarrow> bool" where
  "isSpace3 a b c =
     ((a = CHR 0xE1 \<and> b = CHR 0x9A \<and> c = CHR 0x80)
      \<or> (a = CHR 0xE2 \<and> b = CHR 0x80
          \<and> c \<in> set [CHR 0x80, CHR 0x81, CHR 0x82, CHR 0x83, CHR 0x84, CHR 0x85, CHR 0x86,
                       CHR 0x87, CHR 0x88, CHR 0x89, CHR 0x8A, CHR 0xA8, CHR 0xA9, CHR 0xAF])
      \<or> (a = CHR 0xE2 \<and> b = CHR 0x81 \<and> c = CHR 0x9F)
      \<or> (a = CHR 0xE3 \<and> b = CHR 0x80 \<and> c = CHR 0x80))"

fun trimLeft :: "string \<Rightarrow> string" where
  "trimLeft (a # b # c # s) =
     (if isSpace1 a then trimLeft (b # c # s)
      else if isSpace2 a b then trimLeft (c # s)
      else if isSpace3 a b c then trimLeft s
      else a # b # c # s)"
| "trimLeft [a, b] =
     (if isSpace1 a then trimLeft [b] else if isSpace2 a b then [] else [a, b])"
| "trimLeft [a] = (if isSpace1 a then [] else [a])"
| "trimLeft [] = []"

fun trimReversed :: "string \<Rightarrow> string" where
  "trimReversed (c # b # a # s) =
     (if isSpace1 c then trimReversed (b # a # s)
      else if isSpace2 b c then trimReversed (a # s)
      else if isSpace3 a b c then trimReversed s
      else c # b # a # s)"
| "trimReversed [c, b] =
     (if isSpace1 c then trimReversed [b] else if isSpace2 b c then [] else [c, b])"
| "trimReversed [c] = (if isSpace1 c then [] else [c])"
| "trimReversed [] = []"

definition TrimSpace :: "string \<Rightarrow> string" where
  "TrimSpace s = rev (trimReversed (rev (trimLeft s)))"


text \<open>The verb \<open>%d\<close> of \<open>fmt.Sprintf\<close>.\<close>

definition digitChar :: "nat \<Rightarrow> char" where
  "digitChar d = ''0123456789'' ! d"

fun natToString :: "nat \<Rightarrow> string" where
  "natToString n =
     (if n < 10 then [digitChar n] else natToString (n div 10) @ [digitChar (n mod 10)])"

declare natToString.simps [simp del]

definition intToString :: "int \<Rightarrow> string" where
  "intToString i = (if i < 0 then CHR ''-'' # natToString (nat (- i)) else natToString (nat i))"

text \<open>The verb \<open>%v\<close> of \<open>fmt.Printf\<close> on a \<open>[]string\<close>.\<close>

definition showStrings :: "string list \<Rightarrow> string" where
  "showStrings xs = ''['' @ Join xs '' '' @ '']''"

text \<open>
  A Go \<open>map[string]string\<close> is a list of pairs with distinct keys. Go leaves the order of
  \<open>range\<close> over a map unspecified; the model iterates in insertion order.
\<close>

type_synonym gomap = "(string \<times> string) list"

fun mapPut :: "string \<Rightarrow> string \<Rightarrow> gomap \<Rightarrow> gomap" where
  "mapPut k v [] = [(k, v)]"
| "mapPut k v ((k', v') # m) = (if k = k' then (k, v) # m else (k', v') # mapPut k v m)"

section \<open>The environment of a run\<close>

text \<open>
  Every effect of the deployer on the outside is an \<open>action\<close>: a child process that is run
  to completion (\<open>Run\<close>, with its arguments and standard input), a child process whose
  standard output is captured (\<open>Output\<close>), a change of file mode, and the calls to the
  Kubernetes client. \<open>ConfigureECRPullPermissions\<close> stands for the call of the repository's
  function of that name, whose body is not part of the sources at hand.
\<close>

datatype action =
    Run string "string list" string
  | Output string "string list"
  | Chmod string
  | ConfigureECRPullPermissions string string string
  | InClusterConfig
  | BuildConfigFromFlags string
  | NewForConfig
  | SecretGet string string
  | SecretUpdate string string gomap
  | SecretCreate string string gomap

text \<open>
  The world answers every action, given the history of the run so far, with an error
  (\<open>Inl\<close>) or with the captured output (\<open>Inr\<close>). It also holds what the deployer only
  reads: environment variables, the working directory, the path of the executable, the
  file system as \<open>os.Stat\<close> sees it (\<open>None\<close> for an error, \<open>Some d\<close> for an entry, \<open>d\<close>
  telling whether it is a directory), \<open>exec.LookPath\<close>, the clock, and the library
  functions \<open>filepath.Join\<close>, \<open>filepath.Dir\<close> and \<open>json.Marshal\<close>, which are left
  uninterpreted.
\<close>

type_synonym trace = "(action \<times> bool) list"

record deployReport =
  ID :: string
  Project :: string
  Namespace :: string
  Image :: string
  Status :: string
  Description :: string
  CreatedAt :: int

record world =
  w_exec :: "trace \<Rightarrow> action \<Rightarrow> string + string"
  w_getenv :: "string \<Rightarrow> string"
  w_getwd :: "string + string"
  w_executable :: "string + string"
  w_stat :: "string \<Rightarrow> bool option"
  w_lookPath :: "string \<Rightarrow> string option"
  w_now :: "nat \<Rightarrow> int"
  w_filepathJoin :: "string list \<Rightarrow> string"
  w_filepathDir :: "string \<Rightarrow> string"
  w_jsonMarshal :: "deployReport \<Rightarrow> string"
  w_recommendedHomeFile :: string

text \<open>
  The state of a run: the actions performed so far, each with whether it succeeded, and
  the lines the deployer itself printed on standard output.
\<close>

record state =
  trace :: trace
  stdout :: "string list"

definition succeeded :: "string + string \<Rightarrow> bool" where
  "succeeded r = (case r of Inl _ \<Rightarrow> False | Inr _ \<Rightarrow> True)"

definition exec :: "world \<Rightarrow> action \<Rightarrow> state \<Rightarrow> (string + string) \<times> state" where
  "exec w a st =
     (let r = w_exec w (trace st) a
      in (r, st\<lparr>trace := trace st @ [(a, succeeded r)]\<rparr>))"

definition printf :: "string \<Rightarrow> state \<Rightarrow> state" where
  "printf s st = st\<lparr>stdout := stdout st @ [s]\<rparr>"

text \<open>\<open>Cmd.Run\<close> and \<open>Cmd.Output\<close>.\<close>

definition cmdRun :: "world \<Rightarrow> string \<Rightarrow> string list \<Rightarrow> string \<Rightarrow> state \<Rightarrow> error \<times> state" where
  "cmdRun w name args stdin st =
     (case exec w (Run name args stdin) st of
        (Inl e, st') \<Rightarrow> (Some e, st')
      | (Inr _, st') \<Rightarrow> (None, st'))"

definition cmdOutput :: "world \<Rightarrow> string \<Rightarrow> string list \<Rightarrow> state \<Rightarrow> (string + string) \<times> state" where
  "cmdOutput w name args st = exec w (Output name args) st"

section \<open>Build stage\<close>

text \<open>\<open>findBundledPack\<close> and \<open>findPackCLI\<close>; the empty string means that no pack was found.\<close>

definition findBundledPack :: "world \<Rightarrow> state \<Rightarrow> string \<times> state" where
  "findBundledPack w st =
     (case w_executable w of
        Inl _ \<Rightarrow> ('''', st)
      | Inr execPath \<Rightarrow>
          (let execDir = w_filepathDir w execPath;
               deployerDir = w_filepathJoin w [execDir, ''cmd'', ''deployer''];
               packPath = w_filepathJoin w [deployerDir, ''pack'']
           in if w_stat w packPath = Some False
              then (packPath, snd (exec w (Chmod packPath) st))
              else (let packPath' = w_filepathJoin w [execDir, ''pack'']
                    in if w_stat w packPath' = Some False
                       then (packPath', snd (exec w (Chmod packPath') st))
                       else ('''', st))))"

definition findPackCLI :: "world \<Rightarrow> state \<Rightarrow> string \<times> state" where
  "findPackCLI w st =
     (case findBundledPack w st of
        (bundledPath, st1) \<Rightarrow>
          if bundledPath \<noteq> '''' then (bundledPath, st1)
          else (case w_lookPath w ''pack'' of
                  Some systemPath \<Rightarrow> (systemPath, st1)
                | None \<Rightarrow> ('''', st1)))"

text \<open>The four Dockerfiles of \<open>createDockerfile\<close>.\<close>

definition nodeDockerfile :: string where
  \<open>nodeDockerfile = Join
     [''FROM node:18-alpine'',
      ''WORKDIR /app'',
      ''COPY package*.json ./'',
      ''RUN npm install --omit=dev'',
      ''COPY . .'',
      ''EXPOSE 8080'',
      ''CMD ["node", "server.js"]''] nl\<close>

definition pythonDockerfile :: string where
  \<open>pythonDockerfile = Join
     [''FROM python:3.11-slim'',
      ''RUN apt-get update && apt-get install -y gcc && rm -rf /var/lib/apt/lists/*'',
      ''WORKDIR /app'',
      ''COPY requirements.txt .'',
      ''RUN pip install --no-cache-dir -r requirements.txt'',
      ''COPY . .'',
      ''EXPOSE 8080'',
      ''CMD ["gunicorn", "--bind", "0.0.0.0:8080", "app:app"]''] nl\<close>

definition goDockerfile :: string where
  \<open>goDockerfile = Join
     [''FROM golang:1.21-alpine AS builder'',
      ''WORKDIR /app'',
      ''COPY go.mod ./'',
      ''RUN go mod download'',
      ''COPY . .'',
      ''RUN go build -o main .'',
      '''',
      ''FROM alpine:latest'',
      ''RUN apk add --no-cache ca-certificates'',
      ''WORKDIR /root/'',
      ''COPY --from=builder /app/main .'',
      ''EXPOSE 8080'',
      ''CMD ["./main"]''] nl\<close>

definition defaultDockerfile :: string where
  \<open>defaultDockerfile = Join
     [''FROM alpine:latest'',
      ''WORKDIR /app'',
      ''COPY . .'',
      ''EXPOSE 8080'',
      ''CMD ["echo", "No specific buildpack detected, using default"]''] nl\<close>

text \<open>\<open>os.Stat\<close> returning no error is \<open>w_stat\<close> returning some entry.\<close>

definition createDockerfile :: "world \<Rightarrow> string \<Rightarrow> string" where
  "createDockerfile w appPath =
     (if w_stat w (w_filepathJoin w [appPath, ''package.json'']) \<noteq> None then nodeDockerfile
      else if w_stat w (w_filepathJoin w [appPath, ''requirements.txt'']) \<noteq> None then pythonDockerfile
      else if w_stat w (w_filepathJoin w [appPath, ''go.mod'']) \<noteq> None then goDockerfile
      else defaultDockerfile)"

definition dockerBuildArgs :: "string \<Rightarrow> string \<Rightarrow> string list" where
  "dockerBuildArgs imageRef appPath =
     [''build'', ''--platform'', ''linux/amd64'', ''-t'', imageRef, ''-f'', ''-'', appPath]"

definition buildWithDocker :: "world \<Rightarrow> string \<Rightarrow> string \<Rightarrow> string list \<Rightarrow> state \<Rightarrow> error \<times> state" where
  "buildWithDocker w appPath imageRef envs st =
     (let dockerfile = createDockerfile w appPath;
          args = dockerBuildArgs imageRef appPath
      in cmdRun w ''docker'' args dockerfile st)"

definition packBuildArgs :: "string \<Rightarrow> string \<Rightarrow> string list \<Rightarrow> string list" where
  "packBuildArgs imageRef appPath envs =
     [''build'', imageRef, ''--path'', appPath, ''--builder'', ''paketobuildpacks/builder:tiny'',
      ''--pull-policy'', ''always'', ''--verbose'']
     @ concat (map (\<lambda>e. [''--env'', e]) envs)"

definition buildApplication :: "world \<Rightarrow> string \<Rightarrow> string \<Rightarrow> string list \<Rightarrow> state \<Rightarrow> error \<times> state" where
  "buildApplication w appPath imageRef envs st =
     (case findPackCLI w st of
        (packPath, st1) \<Rightarrow>
          if packPath = ''''
          then buildWithDocker w appPath imageRef envs
                 (printf (''Pack CLI not found, falling back to Docker build...'' @ nl) st1)
          else (let args = packBuildArgs imageRef appPath envs;
                    st2 = printf (''Running pack command: '' @ packPath @ '' '' @ showStrings args @ nl) st1
                in case cmdRun w packPath args '''' st2 of
                     (Some err, st3) \<Rightarrow>
                       buildWithDocker w appPath imageRef envs
                         (printf (''Falling back to Docker build...'' @ nl)
                            (printf (''Pack build failed: '' @ err @ nl) st3))
                   | (None, st3) \<Rightarrow> (None, st3)))"

section \<open>Push stage\<close>

text \<open>
  A function that returns a Go \<open>error\<close> and may also panic has an \<open>outcome\<close>: \<open>Success\<close>
  is the \<open>nil\<close> error, \<open>Failure\<close> a returned error, \<open>Panicked\<close> a run-time panic, which
  unwinds through every caller.
\<close>

datatype outcome = Success | Failure string | Panicked string

definition awsRegion :: "world \<Rightarrow> string" where
  "awsRegion w =
     (let region = w_getenv w ''AWS_REGION'';
          region = (if region = '''' then w_getenv w ''AWS_DEFAULT_REGION'' else region)
      in if region = '''' then ''us-east-1'' else region)"

definition stsArgs :: "string list" where
  "stsArgs = [''sts'', ''get-caller-identity'', ''--query'', ''Account'', ''--output'', ''text'']"

definition ecrImageRefOf :: "string \<Rightarrow> string \<Rightarrow> string \<Rightarrow> string" where
  "ecrImageRefOf accountID region projectName =
     accountID @ ''.dkr.ecr.'' @ region @ ''.amazonaws.com/'' @ projectName @ '':latest''"

text \<open>
  Lines 229 to 243 of \<open>dockerPushWithECRLogin\<close>: a reference without the marker
  \<open>.dkr.ecr.\<close> is a local image and is tagged for the registry first. The result is the
  reference to push.
\<close>

definition tagLocalImage :: "world \<Rightarrow> string \<Rightarrow> string \<Rightarrow> string \<Rightarrow> state \<Rightarrow> (string + string) \<times> state" where
  "tagLocalImage w accountID region imageRef st =
     (if \<not> containsStr imageRef ''.dkr.ecr.''
      then (let projectName = Split imageRef CHR '':'' ! 0;
                ecrImageRef = ecrImageRefOf accountID region projectName;
                st1 = printf (''Tagging local image '' @ imageRef @ '' as '' @ ecrImageRef @ ''...'' @ nl) st
            in case cmdRun w ''docker'' [''tag'', imageRef, ecrImageRef] '''' st1 of
                 (Some err, st2) \<Rightarrow> (Inl (''failed to tag image for ECR: '' @ err), st2)
               | (None, st2) \<Rightarrow> (Inr ecrImageRef, st2))
      else (Inr imageRef, st))"

text \<open>Lines 280 to 287: the push itself.\<close>

definition dockerPush :: "world \<Rightarrow> string \<Rightarrow> state \<Rightarrow> outcome \<times> state" where
  "dockerPush w imageRef st =
     (case cmdRun w ''docker'' [''push'', imageRef] ''''
             (printf (''Pushing image '' @ imageRef @ ''...'' @ nl) st) of
        (Some err, st1) \<Rightarrow>
          (Failure (''failed to push image to ECR: '' @ err @ nl @ nl @ ''Troubleshooting:'' @ nl
             @ ''1. Check ECR permissions'' @ nl @ ''2. Ensure repository exists'' @ nl
             @ ''3. Run: ./setup-ecr.sh''), st1)
      | (None, st1) \<Rightarrow> (Success, st1))"

text \<open>
  Lines 253 to 278: credential, login, repository check with creation; then the push.
  \<open>reg\<close> and \<open>repoName\<close> come from the reference.
\<close>

definition loginAndPush :: "world \<Rightarrow> string \<Rightarrow> string \<Rightarrow> string \<Rightarrow> string \<Rightarrow> state \<Rightarrow> outcome \<times> state" where
  "loginAndPush w region imageRef reg repoName st =
     (case cmdOutput w ''aws'' [''ecr'', ''get-login-password'', ''--region'', region]
             (printf (''Authenticating with ECR...'' @ nl) st) of
        (Inl err, st1) \<Rightarrow>
          (Failure (''failed to get ECR login password: '' @ err @ nl @ nl @ ''Troubleshooting:'' @ nl
             @ ''1. Run: aws configure'' @ nl @ ''2. Ensure your AWS credentials are valid'' @ nl
             @ ''3. Check if you have ECR permissions''), st1)
      | (Inr authOut, st1) \<Rightarrow>
          (case cmdRun w ''docker'' [''login'', ''--username'', ''AWS'', ''--password-stdin'', reg] authOut st1 of
             (Some err, st2) \<Rightarrow> (Failure (''failed to login to ECR: '' @ err), st2)
           | (None, st2) \<Rightarrow>
               (case cmdRun w ''aws'' [''ecr'', ''describe-repositories'', ''--repository-names'', repoName,
                                       ''--region'', region] ''''
                       (printf (''Checking ECR repository: '' @ repoName @ nl) st2) of
                  (Some _, st3) \<Rightarrow>
                    (case cmdRun w ''aws'' [''ecr'', ''create-repository'', ''--repository-name'', repoName,
                                            ''--region'', region] ''''
                            (printf (''Repository '' @ repoName @ '' not found, creating...'' @ nl) st3) of
                       (Some err, st4) \<Rightarrow>
                         (Failure (''failed to create ECR repository '' @ repoName @ '': '' @ err @ nl @ nl
                            @ ''Troubleshooting:'' @ nl @ ''1. Ensure you have ecr:CreateRepository permission''
                            @ nl @ ''2. Run: ./setup-ecr.sh''), st4)
                     | (None, st4) \<Rightarrow>
                         dockerPush w imageRef
                           (printf (''Repository '' @ repoName @ '' created successfully'' @ nl) st4))
                | (None, st3) \<Rightarrow> dockerPush w imageRef st3)))"

text \<open>
  Lines 245 to 251: registry host and repository name. \<open>parts[0]\<close> is guarded by a test of
  the length; the second \<open>strings.Split(imageRef, "/")[1]\<close> is not, and indexing a slice
  of length one at 1 panics.
\<close>

definition pushTagged :: "world \<Rightarrow> string \<Rightarrow> string \<Rightarrow> state \<Rightarrow> outcome \<times> state" where
  "pushTagged w region imageRef st =
     (let parts = Split imageRef CHR ''/''
      in if length parts < 1 then (Failure (''invalid image: '' @ imageRef), st)
         else (let reg = parts ! 0
               in if length (Split imageRef CHR ''/'') \<le> 1
                  then (Panicked (''runtime error: index out of range [1] with length ''
                                  @ natToString (length (Split imageRef CHR ''/''))), st)
                  else (let repoName = Split imageRef CHR ''/'' ! 1;
                            repoName = Split repoName CHR '':'' ! 0
                        in loginAndPush w region imageRef reg repoName st)))"

definition dockerPushWithECRLogin :: "world \<Rightarrow> string \<Rightarrow> state \<Rightarrow> outcome \<times> state" where
  "dockerPushWithECRLogin w imageRef st =
     (let region = awsRegion w
      in case cmdOutput w ''aws'' stsArgs st of
           (Inl err, st1) \<Rightarrow>
             (Failure (''failed to get AWS account ID for ECR push: '' @ err @ nl @ nl
                @ ''Troubleshooting:'' @ nl @ ''1. Run: aws configure'' @ nl
                @ ''2. Ensure your AWS credentials are valid'' @ nl
                @ ''3. Set AWS_ACCOUNT_ID environment variable''), st1)
         | (Inr out, st1) \<Rightarrow>
             (let accountID = TrimSpace out
              in if accountID = '''' then (Failure ''AWS account ID is empty'', st1)
                 else (case tagLocalImage w accountID region imageRef st1 of
                         (Inl err, st2) \<Rightarrow> (Failure err, st2)
                       | (Inr imageRef', st2) \<Rightarrow> pushTagged w region imageRef' st2)))"

section \<open>Deploy stage\<close>

fun toEnvMapFrom :: "string list \<Rightarrow> gomap \<Rightarrow> gomap" where
  "toEnvMapFrom [] m = m"
| "toEnvMapFrom (p # ps) m =
     (let kv = SplitN2 p CHR ''=''
      in toEnvMapFrom ps (if length kv = 2 then mapPut (kv ! 0) (kv ! 1) m else m))"

definition toEnvMap :: "string list \<Rightarrow> gomap" where
  "toEnvMap pairs = toEnvMapFrom pairs []"

definition newKnServiceYAML ::
  "string \<Rightarrow> string \<Rightarrow> string \<Rightarrow> string \<Rightarrow> string \<Rightarrow> gomap \<Rightarrow> int \<Rightarrow> string" where
  \<open>newKnServiceYAML name img ns cpu mem env port =
     (let envLines = map (\<lambda>(k, v). ''          - name: '' @ k @ nl @ ''            value: "'' @ v @ ''"'') env;
          envBlock = (if length envLines > 0 then ''        env:'' @ nl @ Join envLines nl else '''')
      in ''apiVersion: serving.knative.dev/v1'' @ nl
         @ ''kind: Service'' @ nl
         @ ''metadata:'' @ nl
         @ ''  name: '' @ name @ nl
         @ ''  namespace: '' @ ns @ nl
         @ ''spec:'' @ nl
         @ ''  template:'' @ nl
         @ ''    metadata:'' @ nl
         @ ''      annotations:'' @ nl
         @ ''        autoscaling.knative.dev/minScale: "1"'' @ nl
         @ ''    spec:'' @ nl
         @ ''      containers:'' @ nl
         @ ''        - image: '' @ img @ nl
         @ ''          ports:'' @ nl
         @ ''            - containerPort: '' @ intToString port @ nl
         @ ''              name: http1'' @ nl
         @ envBlock @ nl)\<close>

definition knServiceApply ::
  "world \<Rightarrow> string \<Rightarrow> string \<Rightarrow> string \<Rightarrow> string \<Rightarrow> string \<Rightarrow> gomap \<Rightarrow> string \<Rightarrow> int \<Rightarrow> state
   \<Rightarrow> error \<times> state" where
  "knServiceApply w name img ns cpu mem env kubecontext port st =
     (let y = newKnServiceYAML name img ns cpu mem env port;
          args = [''apply'', ''-f'', ''-''];
          args = (if kubecontext \<noteq> '''' then [''--context'', kubecontext] @ args else args)
      in cmdRun w ''kubectl'' args y st)"

text \<open>
  \<open>getClient\<close>: the client set itself is opaque; what the callers use is the namespace.
\<close>

definition newClientset :: "world \<Rightarrow> string \<Rightarrow> state \<Rightarrow> (string + string) \<times> state" where
  "newClientset w namespace st =
     (case exec w NewForConfig st of
        (Inl err, st1) \<Rightarrow> (Inl err, st1)
      | (Inr _, st1) \<Rightarrow> (Inr (if namespace = '''' then ''default'' else namespace), st1))"

definition getClient :: "world \<Rightarrow> string \<Rightarrow> state \<Rightarrow> (string + string) \<times> state" where
  "getClient w namespace st =
     (case exec w InClusterConfig st of
        (Inl _, st1) \<Rightarrow>
          (let kubeconfig = w_getenv w ''KUBECONFIG'';
               kubeconfig = (if kubeconfig = '''' then w_recommendedHomeFile w else kubeconfig)
           in case exec w (BuildConfigFromFlags kubeconfig) st1 of
                (Inl err, st2) \<Rightarrow> (Inl err, st2)
              | (Inr _, st2) \<Rightarrow> newClientset w namespace st2)
      | (Inr _, st1) \<Rightarrow> newClientset w namespace st1)"

text \<open>
  The tail shared by \<open>attachDatabase\<close>, \<open>attachRedis\<close> and \<open>createSecrets\<close>: get the
  secret; update it when the get succeeded, create it otherwise.
\<close>

definition errorOf :: "string + string \<Rightarrow> error" where
  "errorOf r = (case r of Inl err \<Rightarrow> Some err | Inr _ \<Rightarrow> None)"

definition applySecret :: "world \<Rightarrow> string \<Rightarrow> string \<Rightarrow> gomap \<Rightarrow> state \<Rightarrow> error \<times> state" where
  "applySecret w ns secName stringData st =
     (case exec w (SecretGet ns secName) st of
        (Inr _, st1) \<Rightarrow>
          (case exec w (SecretUpdate ns secName stringData) st1 of (r, st2) \<Rightarrow> (errorOf r, st2))
      | (Inl _, st1) \<Rightarrow>
          (case exec w (SecretCreate ns secName stringData) st1 of (r, st2) \<Rightarrow> (errorOf r, st2)))"

definition attachDatabase ::
  "world \<Rightarrow> string \<Rightarrow> string \<Rightarrow> string \<Rightarrow> string \<Rightarrow> string \<Rightarrow> int \<Rightarrow> string \<Rightarrow> string \<Rightarrow> state
   \<Rightarrow> error \<times> state" where
  "attachDatabase w name namespace user password host port db kubecontext st =
     (case getClient w namespace st of
        (Inl err, st1) \<Rightarrow> (Some err, st1)
      | (Inr ns, st1) \<Rightarrow>
          (let url = ''postgres://'' @ user @ '':'' @ password @ ''@'' @ host @ '':''
                     @ intToString port @ ''/'' @ db
           in applySecret w ns (name @ ''-db'') [(''DATABASE_URL'', url)] st1))"

definition attachRedis ::
  "world \<Rightarrow> string \<Rightarrow> string \<Rightarrow> string \<Rightarrow> int \<Rightarrow> string \<Rightarrow> string \<Rightarrow> state \<Rightarrow> error \<times> state" where
  "attachRedis w name namespace host port password kubecontext st =
     (case getClient w namespace st of
        (Inl err, st1) \<Rightarrow> (Some err, st1)
      | (Inr ns, st1) \<Rightarrow>
          (let url = ''redis://:'' @ password @ ''@'' @ host @ '':'' @ intToString port
           in applySecret w ns (name @ ''-redis'') [(''REDIS_URL'', url)] st1))"

fun secretData :: "string list \<Rightarrow> gomap \<Rightarrow> string + gomap" where
  "secretData [] data = Inr data"
| "secretData (p # ps) data =
     (let kv = SplitN2 p CHR ''=''
      in if length kv \<noteq> 2 then Inl (''invalid secret pair: '' @ p)
         else secretData ps (mapPut (kv ! 0) (kv ! 1) data))"

definition createSecrets ::
  "world \<Rightarrow> string \<Rightarrow> string \<Rightarrow> string list \<Rightarrow> string \<Rightarrow> state \<Rightarrow> error \<times> state" where
  "createSecrets w name namespace pairs kubecontext st =
     (case getClient w namespace st of
        (Inl err, st1) \<Rightarrow> (Some err, st1)
      | (Inr ns, st1) \<Rightarrow>
          (case secretData pairs [] of
             Inl err \<Rightarrow> (Some err, st1)
           | Inr data \<Rightarrow> applySecret w ns (name @ ''-secrets'') data st1))"

definition report :: "world \<Rightarrow> string \<Rightarrow> deployReport \<Rightarrow> state \<Rightarrow> error \<times> state" where
  "report w server payload st =
     (let b = w_jsonMarshal w payload
      in cmdRun w ''curl'' [''-sS'', ''-X'', ''POST'', ''-H'', ''Content-Type: application/json'',
                           ''-d'', b, server @ ''/deployments''] '''' st)"

section \<open>The deploy command\<close>

definition getProjectName :: "world \<Rightarrow> string + string" where
  "getProjectName w =
     (case w_getwd w of
        Inl err \<Rightarrow> Inl err
      | Inr wd \<Rightarrow>
          (let parts = Split wd CHR ''/''
           in if length parts = 0
              then Inl ''unable to determine project name from current directory''
              else Inr (parts ! (length parts - 1))))"

definition accountWarning :: string where
  "accountWarning =
     [CHR 0xE2, CHR 0x9A, CHR 0xA0, CHR 0xEF, CHR 0xB8, CHR 0x8F]
     @ ''  Could not determine AWS account ID. Using local image name for building.'' @ nl"

definition generateImageRef :: "world \<Rightarrow> string \<Rightarrow> state \<Rightarrow> (string + string) \<times> state" where
  "generateImageRef w projectName st =
     (let region = awsRegion w
      in case cmdOutput w ''aws'' stsArgs st of
           (Inl _, st1) \<Rightarrow>
             (let accountID = w_getenv w ''AWS_ACCOUNT_ID'';
                  accountID =
                    (if accountID = ''''
                     then (let ecrURL = w_getenv w ''ECR_URL''
                           in if ecrURL \<noteq> ''''
                              then (let parts = Split ecrURL CHR ''.''
                                    in if length parts > 0 \<and> containsStr (parts ! 0) ''dkr''
                                       then Split (parts ! 0) CHR ''.'' ! 0
                                       else accountID)
                              else accountID)
                     else accountID)
              in if accountID = ''''
                 then (Inr (projectName @ '':latest''), printf accountWarning st1)
                 else (Inr (ecrImageRefOf accountID region projectName), st1))
         | (Inr out, st1) \<Rightarrow>
             (let accountID = TrimSpace out
              in if accountID = '''' then (Inl ''AWS account ID is empty'', st1)
                 else (Inr (ecrImageRefOf accountID region projectName), st1)))"

text \<open>The flags of the deploy command, with the values the command line gave them.\<close>

record flags =
  flag_namespace :: string
  flag_port :: int
  flag_cpu :: string
  flag_mem :: string
  flag_envs :: "string list"
  flag_serverURL :: string
  flag_kubecontext :: string
  flag_dbHost :: string
  flag_dbName :: string
  flag_dbUser :: string
  flag_dbPassword :: string
  flag_dbPort :: int
  flag_redisHost :: string
  flag_redisPassword :: string
  flag_redisPort :: int
  flag_secrets :: "string list"

text \<open>
  \<open>configureECRPullPermissions\<close> is called by the deploy command; its body is elsewhere
  in the repository. It is an action the world answers.
\<close>

definition configureECRPullPermissions ::
  "world \<Rightarrow> string \<Rightarrow> string \<Rightarrow> string \<Rightarrow> state \<Rightarrow> error \<times> state" where
  "configureECRPullPermissions w projectName ns kubecontext st =
     (case exec w (ConfigureECRPullPermissions projectName ns kubecontext) st of
        (r, st1) \<Rightarrow> (errorOf r, st1))"

text \<open>
  Lines 102 to 139 of the deploy command: project name, image reference, build, push,
  service apply, pull permissions. The result is either the outcome that ends the run
  or the project name, image reference and namespace the later steps use.
\<close>

definition deployPrimary ::
  "world \<Rightarrow> flags \<Rightarrow> state \<Rightarrow> (outcome + string \<times> string \<times> string) \<times> state" where
  "deployPrimary w fl st =
     (case getProjectName w of
        Inl err \<Rightarrow> (Inl (Failure (''failed to detect project name: '' @ err)), st)
      | Inr projectName \<Rightarrow>
          (case generateImageRef w projectName st of
             (Inl err, st1) \<Rightarrow> (Inl (Failure (''failed to generate image reference: '' @ err)), st1)
           | (Inr imageRef, st1) \<Rightarrow>
               (let ns = (if flag_namespace fl = '''' then ''default'' else flag_namespace fl)
                in case buildApplication w ''.'' imageRef (flag_envs fl)
                          (printf (''Building application '' @ projectName @ ''...'' @ nl) st1) of
                     (Some err, st2) \<Rightarrow> (Inl (Failure (''build failed: '' @ err)), st2)
                   | (None, st2) \<Rightarrow>
                       (case dockerPushWithECRLogin w imageRef
                               (printf (''Pushing image '' @ imageRef @ ''...'' @ nl) st2) of
                          (Failure err, st3) \<Rightarrow> (Inl (Failure (''push failed: '' @ err)), st3)
                        | (Panicked msg, st3) \<Rightarrow> (Inl (Panicked msg), st3)
                        | (Success, st3) \<Rightarrow>
                            (case knServiceApply w projectName imageRef ns (flag_cpu fl) (flag_mem fl)
                                    (toEnvMap (flag_envs fl)) (flag_kubecontext fl) (flag_port fl)
                                    (printf (''Deploying service '' @ projectName @ ''...'' @ nl) st3) of
                               (Some err, st4) \<Rightarrow> (Inl (Failure (''deploy failed: '' @ err)), st4)
                             | (None, st4) \<Rightarrow>
                                 (case configureECRPullPermissions w projectName ns (flag_kubecontext fl)
                                         (printf (''Configuring ECR pull permissions...'' @ nl) st4) of
                                    (Some err, st5) \<Rightarrow>
                                      (Inr (projectName, imageRef, ns),
                                       printf (''The service may not be able to pull images from ECR.'' @ nl)
                                         (printf (''Warning: Failed to configure ECR pull permissions: ''
                                                  @ err @ nl) st5))
                                  | (None, st5) \<Rightarrow> (Inr (projectName, imageRef, ns), st5)))))))"

text \<open>
  Lines 141 to 163: the three optional attachments, each requested by its flag. The result
  is the error the command returns there, or \<open>None\<close> when the command goes on.
\<close>

definition attachSecretsStep :: "world \<Rightarrow> flags \<Rightarrow> string \<Rightarrow> string \<Rightarrow> state \<Rightarrow> error \<times> state" where
  "attachSecretsStep w fl projectName ns st =
     (if length (flag_secrets fl) > 0
      then (case createSecrets w projectName ns (flag_secrets fl) (flag_kubecontext fl)
                   (printf (''Creating secrets...'' @ nl) st) of
              (Some err, st1) \<Rightarrow> (Some (''secrets creation failed: '' @ err), st1)
            | (None, st1) \<Rightarrow> (None, st1))
      else (None, st))"

definition attachRedisStep :: "world \<Rightarrow> flags \<Rightarrow> string \<Rightarrow> string \<Rightarrow> state \<Rightarrow> error \<times> state" where
  "attachRedisStep w fl projectName ns st =
     (if flag_redisHost fl \<noteq> ''''
      then (case attachRedis w projectName ns (flag_redisHost fl) (flag_redisPort fl)
                   (flag_redisPassword fl) (flag_kubecontext fl)
                   (printf (''Attaching Redis...'' @ nl) st) of
              (Some err, st1) \<Rightarrow> (Some (''redis attach failed: '' @ err), st1)
            | (None, st1) \<Rightarrow> (None, st1))
      else (None, st))"

definition attachDatabaseStep :: "world \<Rightarrow> flags \<Rightarrow> string \<Rightarrow> string \<Rightarrow> state \<Rightarrow> error \<times> state" where
  "attachDatabaseStep w fl projectName ns st =
     (if flag_dbHost fl \<noteq> ''''
      then (case attachDatabase w projectName ns (flag_dbUser fl) (flag_dbPassword fl)
                   (flag_dbHost fl) (flag_dbPort fl) (flag_dbName fl) (flag_kubecontext fl)
                   (printf (''Attaching database...'' @ nl) st) of
              (Some err, st1) \<Rightarrow> (Some (''database attach failed: '' @ err), st1)
            | (None, st1) \<Rightarrow> (None, st1))
      else (None, st))"

definition deployAttach :: "world \<Rightarrow> flags \<Rightarrow> string \<Rightarrow> string \<Rightarrow> state \<Rightarrow> error \<times> state" where
  "deployAttach w fl projectName ns st =
     (case attachDatabaseStep w fl projectName ns st of
        (Some err, st1) \<Rightarrow> (Some err, st1)
      | (None, st1) \<Rightarrow>
          (case attachRedisStep w fl projectName ns st1 of
             (Some err, st2) \<Rightarrow> (Some err, st2)
           | (None, st2) \<Rightarrow> attachSecretsStep w fl projectName ns st2))"

text \<open>
  Lines 165 to 180: the report, whose error is assigned to the blank identifier, the
  closing message, and the \<open>nil\<close> result. The clock is read twice.
\<close>

definition deployReporting :: "world \<Rightarrow> flags \<Rightarrow> string \<Rightarrow> string \<Rightarrow> string \<Rightarrow> state \<Rightarrow> outcome \<times> state" where
  "deployReporting w fl projectName imageRef ns st =
     (let st1 =
            (if flag_serverURL fl \<noteq> ''''
             then snd (report w (flag_serverURL fl)
                         \<lparr>ID = projectName @ '':'' @ intToString (w_now w 0),
                          Project = projectName,
                          Namespace = ns,
                          Image = imageRef,
                          Status = ''deployed'',
                          Description = ''Application deployed with auto-build and push'',
                          CreatedAt = w_now w 1\<rparr> st)
             else st)
      in (Success,
          printf (''Successfully deployed '' @ projectName @ '' to namespace '' @ ns @ nl) st1))"

text \<open>The \<open>RunE\<close> function of the deploy command.\<close>

definition deployRunE :: "world \<Rightarrow> flags \<Rightarrow> state \<Rightarrow> outcome \<times> state" where
  "deployRunE w fl st =
     (case deployPrimary w fl st of
        (Inl out, st1) \<Rightarrow> (out, st1)
      | (Inr (projectName, imageRef, ns), st1) \<Rightarrow>
          (case deployAttach w fl projectName ns st1 of
             (Some err, st2) \<Rightarrow> (Failure err, st2)
           | (None, st2) \<Rightarrow> deployReporting w fl projectName imageRef ns st2))"

section \<open>The diagnostic agent\<close>

text \<open>
  Modelled from the spec: the agent (\<open>NewAIAgent\<close>, \<open>detectError\<close>, \<open>selectBestFix\<close>, its
  types, the registered patterns and strategies) is missing from the sources; only its
  tests are there. The types below have the fields the tests use, with the remaining
  fields of the data model of Section 3. A confidence is a number in the unit interval
  and is modelled as a real.
\<close>

datatype severity = Low | Medium | High

record FixStrategy =
  Name :: string
  Description :: string
  Confidence :: real
  Commands :: "string list"

record ErrorPattern =
  Name :: string
  Match :: "string \<Rightarrow> bool"
  Severity :: severity
  Category :: string

record DeploymentError =
  Pattern :: ErrorPattern
  Suggestions :: "FixStrategy list"

text \<open>
  Modelled from the spec: \<open>selectBestFix\<close> is missing from the sources. Section 4.7: if the
  input is none, or its candidate-strategy list is empty, returns none; otherwise ranks
  candidates strictly by descending confidence and returns the top entry, ties broken by
  registration order (stable sort). The ranking is the stable insertion sort of the
  library on the negated confidence.
\<close>

definition rankByConfidence :: "FixStrategy list \<Rightarrow> FixStrategy list" where
  "rankByConfidence candidates = sort_key (\<lambda>s. - Confidence s) candidates"

fun selectBestFix :: "DeploymentError option \<Rightarrow> FixStrategy option" where
  "selectBestFix None = None"
| "selectBestFix (Some e) =
     (if Suggestions e = [] then None
      else (case rankByConfidence (Suggestions e) of
              [] \<Rightarrow> None
            | best # _ \<Rightarrow> Some best))"

section \<open>The push command\<close>

text \<open>The \<open>RunE\<close> function of the push command, the public entry to the push stage.\<close>

definition pushRunE :: "world \<Rightarrow> string \<Rightarrow> state \<Rightarrow> outcome \<times> state" where
  "pushRunE w imageRef st =
     (if imageRef = '''' then (Failure ''image is required'', st)
      else dockerPushWithECRLogin w imageRef st)"

section \<open>Vocabulary for statements about runs\<close>

definition isFailure :: "outcome \<Rightarrow> bool" where
  "isFailure res = (case res of Failure _ \<Rightarrow> True | _ \<Rightarrow> False)"













text \<open>
  Running steps strictly in order, from a trace \<open>t\<close> of earlier actions. A \<open>Single\<close> step is
  one action; if it fails it is the last action of the run, and the run has failed.
  \<open>Ensure a b\<close> is a check \<open>a\<close> with a remedy \<open>b\<close>: if the check succeeds the remedy is not
  run; if the check fails the remedy is the next action, and if the remedy fails it is the
  last action of the run, and the run has failed. A step is only started when every step
  before it has gone through. The result is the actions performed, each with whether it
  succeeded, and whether all steps have gone through.
\<close>

datatype stageStep = Single action | Ensure action action

fun runInOrder :: "world \<Rightarrow> trace \<Rightarrow> stageStep list \<Rightarrow> trace \<times> bool" where
  "runInOrder w t [] = ([], True)"
| "runInOrder w t (Single a # rest) =
     (if succeeded (w_exec w t a)
      then (case runInOrder w (t @ [(a, True)]) rest of
              (tr, through) \<Rightarrow> ((a, True) # tr, through))
      else ([(a, False)], False))"
| "runInOrder w t (Ensure a b # rest) =
     (if succeeded (w_exec w t a)
      then (case runInOrder w (t @ [(a, True)]) rest of
              (tr, through) \<Rightarrow> ((a, True) # tr, through))
      else if succeeded (w_exec w (t @ [(a, False)]) b)
      then (case runInOrder w (t @ [(a, False), (b, True)]) rest of
              (tr, through) \<Rightarrow> ((a, False) # (b, True) # tr, through))
      else ([(a, False), (b, False)], False))"


section \<open>Example runs\<close>

text \<open>
  A world in which every tool is installed and succeeds, except that no pack is found and
  the process does not run inside a cluster; the working directory is a Node project
  named \<open>myapp\<close>; secrets do not exist yet. It is varied below by a failing tool each.
\<close>

definition initState :: state where
  "initState = \<lparr>trace = [], stdout = []\<rparr>"

definition exampleExec :: "trace \<Rightarrow> action \<Rightarrow> string + string" where
  "exampleExec tr a =
     (case a of
        Output name args \<Rightarrow>
          if args = stsArgs then Inr (''123456789012'' @ nl) else Inr ''login-password''
      | InClusterConfig \<Rightarrow> Inl ''not running in a cluster''
      | SecretGet ns name \<Rightarrow> Inl ''secret not found''
      | _ \<Rightarrow> Inr '''')"

definition exampleWorld :: world where
  "exampleWorld =
     \<lparr>w_exec = exampleExec,
      w_getenv = (\<lambda>name. ''''),
      w_getwd = Inr ''/home/dev/myapp'',
      w_executable = Inr ''/usr/local/bin/flow'',
      w_stat = (\<lambda>path. if path = ''./package.json'' then Some False else None),
      w_lookPath = (\<lambda>name. None),
      w_now = (\<lambda>k. 1700000000),
      w_filepathJoin = (\<lambda>elems. Join elems ''/''),
      w_filepathDir = (\<lambda>path. ''/usr/local/bin''),
      w_jsonMarshal = (\<lambda>payload. ''{}''),
      w_recommendedHomeFile = ''/home/dev/.kube/config''\<rparr>"

definition exampleFlags :: flags where
  "exampleFlags =
     \<lparr>flag_namespace = ''default'', flag_port = 8080, flag_cpu = ''250m'', flag_mem = ''256Mi'',
      flag_envs = [], flag_serverURL = '''', flag_kubecontext = '''',
      flag_dbHost = ''db.internal'', flag_dbName = ''app'', flag_dbUser = ''app'',
      flag_dbPassword = ''changeme'', flag_dbPort = 5432,
      flag_redisHost = '''', flag_redisPassword = '''', flag_redisPort = 6379,
      flag_secrets = []\<rparr>"

text \<open>The cluster refuses to create secrets.\<close>

definition secretsForbiddenWorld :: world where
  "secretsForbiddenWorld =
     exampleWorld\<lparr>w_exec :=
       (\<lambda>tr a. case a of SecretCreate ns name data \<Rightarrow> Inl ''forbidden'' | _ \<Rightarrow> exampleExec tr a)\<rparr>"

text \<open>Only a cache is requested.\<close>

definition redisFlags :: flags where
  "redisFlags = exampleFlags\<lparr>flag_dbHost := '''', flag_redisHost := ''cache.internal''\<rparr>"

text \<open>A tracking server is configured; in the second world it cannot be reached.\<close>

definition reportFlags :: flags where
  "reportFlags = exampleFlags\<lparr>flag_serverURL := ''http://localhost:8080''\<rparr>"

definition reportFailsWorld :: world where
  "reportFailsWorld =
     exampleWorld\<lparr>w_exec :=
       (\<lambda>tr a. case a of
                  Run name args stdin \<Rightarrow> if name = ''curl'' then Inl ''exit status 7'' else exampleExec tr a
                | _ \<Rightarrow> exampleExec tr a)\<rparr>"



text \<open>A pack is installed and fails; a tree with both a Node and a Python marker.\<close>

definition packFailsWorld :: world where
  "packFailsWorld =
     exampleWorld\<lparr>w_lookPath := (\<lambda>name. Some ''/usr/bin/pack''),
                  w_exec :=
       (\<lambda>tr a. case a of
                  Run name args stdin \<Rightarrow>
                    if name = ''/usr/bin/pack'' then Inl ''exit status 1'' else exampleExec tr a
                | _ \<Rightarrow> exampleExec tr a)\<rparr>"

definition twoMarkersWorld :: world where
  "twoMarkersWorld =
     exampleWorld\<lparr>w_stat :=
       (\<lambda>path. if path = ''./package.json'' \<or> path = ''./requirements.txt'' then Some False else None)\<rparr>"



text \<open>
  Three candidate strategies with confidences 0.3, 0.9 and 0.6, and an error that carries
  them; of its pattern only the name is set, as in the tests of the selector.
\<close>

definition exampleCandidates :: "FixStrategy list" where
  "exampleCandidates =
     [\<lparr>FixStrategy.Name = ''retry_build'', Description = ''Retry the build'',
       Confidence = 0.3, Commands = []\<rparr>,
      \<lparr>FixStrategy.Name = ''docker_fallback'', Description = ''Switch to Docker build'',
       Confidence = 0.9, Commands = []\<rparr>,
      \<lparr>FixStrategy.Name = ''clear_cache'', Description = ''Clear the build cache'',
       Confidence = 0.6, Commands = []\<rparr>]"

definition exampleError :: DeploymentError where
  "exampleError =
     \<lparr>Pattern = \<lparr>Name = ''buildpack_failure'', Match = (\<lambda>text. False), Severity = Low,
                 Category = ''''\<rparr>,
      Suggestions = exampleCandidates\<rparr>"

section \<open>Basic facts about the environment\<close>

lemma succeeded_simps [simp]: "succeeded (Inl e) = False" "succeeded (Inr x) = True"
  by (simp_all add: succeeded_def)

lemma errorOf_simps [simp]: "errorOf (Inl e) = Some e" "errorOf (Inr x) = None"
  by (simp_all add: errorOf_def)

lemma succeeded_errorOf: "succeeded r = (errorOf r = None)"
  by (cases r) simp_all

lemma isFailure_simps [simp]:
  "isFailure Success = False" "isFailure (Failure e) = True" "isFailure (Panicked m) = False"
  by (simp_all add: isFailure_def)

lemma isFailure_not_Success: "isFailure res \<Longrightarrow> res \<noteq> Success"
  by auto

lemma trace_printf [simp]: "trace (printf s st) = trace st"
  by (simp add: printf_def)

lemma cmdRun_eq:
  "cmdRun w name args stdin st =
     (errorOf (w_exec w (trace st) (Run name args stdin)),
      st\<lparr>trace := trace st @
             [(Run name args stdin, succeeded (w_exec w (trace st) (Run name args stdin)))]\<rparr>)"
  by (simp add: cmdRun_def exec_def Let_def split: sum.splits)

lemma cmdRun_trace:
  "trace (snd (cmdRun w name args stdin st)) =
     trace st @ [(Run name args stdin, fst (cmdRun w name args stdin st) = None)]"
  by (simp add: cmdRun_eq succeeded_errorOf)

section \<open>Facts about the string functions\<close>

lemma hasPrefix_append [simp]: "hasPrefix (sub @ rest) sub"
  by (induction sub) simp_all

lemma containsStr_here: "hasPrefix s sub \<Longrightarrow> containsStr s sub"
  by (cases s) (auto elim: hasPrefix.elims)

lemma containsStr_append_left: "containsStr s sub \<Longrightarrow> containsStr (pre @ s) sub"
  by (induction pre) simp_all

lemma containsStr_infix: "containsStr (pre @ sub @ post) sub"
  by (rule containsStr_append_left) (rule containsStr_here, simp)

lemma splitAcc_nonempty: "splitAcc sep acc s \<noteq> []"
  by (induction s arbitrary: acc) simp_all

lemma Split_nonempty [simp]: "Split s sep \<noteq> []"
  by (simp add: Split_def splitAcc_nonempty)

lemma splitAcc_no_sep: "sep \<notin> set s \<Longrightarrow> splitAcc sep acc s = [rev acc @ s]"
  by (induction s arbitrary: acc) auto

lemma Split_no_sep: "sep \<notin> set s \<Longrightarrow> Split s sep = [s]"
  by (simp add: Split_def splitAcc_no_sep)



section \<open>Build stage\<close>

text \<open>
  Claim C8. For every application path, image reference and list of build environment
  entries, in every world and so on every host, the fallback build \<open>buildWithDocker\<close>
  performs exactly one action: it runs \<open>docker build\<close> with the platform fixed to
  \<open>linux/amd64\<close>, tagging the image reference and reading the generated Dockerfile from
  standard input.
\<close>

theorem buildWithDocker_fixed_platform:
  "trace (snd (buildWithDocker w appPath imageRef envs st)) =
     trace st @
     [(Run ''docker''
         [''build'', ''--platform'', ''linux/amd64'', ''-t'', imageRef, ''-f'', ''-'', appPath]
         (createDockerfile w appPath),
       fst (buildWithDocker w appPath imageRef envs st) = None)]"
  by (simp add: buildWithDocker_def dockerBuildArgs_def Let_def cmdRun_trace)

lemma dockerfiles_from:
  "hasPrefix nodeDockerfile ''FROM node:18-alpine''"
  "hasPrefix pythonDockerfile ''FROM python:3.11-slim''"
  "hasPrefix goDockerfile ''FROM golang:1.21-alpine AS builder''"
  "hasPrefix defaultDockerfile ''FROM alpine:latest''"
  by (simp_all add: nodeDockerfile_def pythonDockerfile_def goDockerfile_def defaultDockerfile_def)

lemma buildApplication_runs:
  assumes "findPackCLI w st = (packPath, st1)"
  shows "let packCmd = Run packPath (packBuildArgs imageRef appPath envs) '''';
             dockerCmd = Run ''docker'' (dockerBuildArgs imageRef appPath) (createDockerfile w appPath);
             res = fst (buildApplication w appPath imageRef envs st);
             tr = trace (snd (buildApplication w appPath imageRef envs st))
         in (packPath = '''' \<longrightarrow>
               tr = trace st1 @ [(dockerCmd, res = None)]
               \<and> res = errorOf (w_exec w (trace st1) dockerCmd))
          \<and> (packPath \<noteq> '''' \<and> succeeded (w_exec w (trace st1) packCmd) \<longrightarrow>
               tr = trace st1 @ [(packCmd, True)] \<and> res = None)
          \<and> (packPath \<noteq> '''' \<and> \<not> succeeded (w_exec w (trace st1) packCmd) \<longrightarrow>
               tr = trace st1 @ [(packCmd, False), (dockerCmd, res = None)]
               \<and> res = errorOf (w_exec w (trace st1 @ [(packCmd, False)]) dockerCmd))"
  using assms
  by (auto simp: buildApplication_def buildWithDocker_def Let_def cmdRun_eq succeeded_errorOf
           split: option.splits)

text \<open>
  Claim C2, as stated, fails where a tree holds more than one marker: with both a
  \<open>package.json\<close> and a \<open>requirements.txt\<close> the generated Dockerfile is the Node one, not
  the Python one.
\<close>

theorem createDockerfile_two_markers_counterexample:
  "w_stat twoMarkersWorld (w_filepathJoin twoMarkersWorld [''.'', ''requirements.txt'']) \<noteq> None
   \<and> createDockerfile twoMarkersWorld ''.'' = nodeDockerfile
   \<and> createDockerfile twoMarkersWorld ''.'' \<noteq> pythonDockerfile"
  by (simp add: twoMarkersWorld_def exampleWorld_def createDockerfile_def
        nodeDockerfile_def pythonDockerfile_def)

text \<open>
  Claim C2, amended. For every application source path the build stage first attempts
  the pack build when a pack is found; when no pack is found, or the pack build returns
  an error, it falls back to \<open>docker build\<close> on a generated Dockerfile, and the result of
  the stage is then the result of that build. When the pack build succeeds nothing else
  is run. The Dockerfile is selected by the first marker found, testing in this order: a
  \<open>package.json\<close> yields the Node template; otherwise a \<open>requirements.txt\<close> yields the
  Python template; otherwise a \<open>go.mod\<close> yields the Go template; the absence of all
  three yields the placeholder on \<open>alpine\<close>.
\<close>

theorem buildApplication_fallback:
  assumes "findPackCLI w st = (packPath, st1)"
  shows "(let packCmd = Run packPath (packBuildArgs imageRef appPath envs) '''';
              dockerCmd = Run ''docker'' (dockerBuildArgs imageRef appPath) (createDockerfile w appPath);
              res = fst (buildApplication w appPath imageRef envs st);
              tr = trace (snd (buildApplication w appPath imageRef envs st))
          in (packPath = '''' \<longrightarrow>
                tr = trace st1 @ [(dockerCmd, res = None)]
                \<and> res = errorOf (w_exec w (trace st1) dockerCmd))
           \<and> (packPath \<noteq> '''' \<and> succeeded (w_exec w (trace st1) packCmd) \<longrightarrow>
                tr = trace st1 @ [(packCmd, True)] \<and> res = None)
           \<and> (packPath \<noteq> '''' \<and> \<not> succeeded (w_exec w (trace st1) packCmd) \<longrightarrow>
                tr = trace st1 @ [(packCmd, False), (dockerCmd, res = None)]
                \<and> res = errorOf (w_exec w (trace st1 @ [(packCmd, False)]) dockerCmd)))
       \<and> (let marker = (\<lambda>file. w_stat w (w_filepathJoin w [appPath, file]) \<noteq> None)
          in (marker ''package.json'' \<longrightarrow> createDockerfile w appPath = nodeDockerfile)
           \<and> (\<not> marker ''package.json'' \<and> marker ''requirements.txt'' \<longrightarrow>
                createDockerfile w appPath = pythonDockerfile)
           \<and> (\<not> marker ''package.json'' \<and> \<not> marker ''requirements.txt'' \<and> marker ''go.mod'' \<longrightarrow>
                createDockerfile w appPath = goDockerfile)
           \<and> (\<not> marker ''package.json'' \<and> \<not> marker ''requirements.txt'' \<and> \<not> marker ''go.mod'' \<longrightarrow>
                createDockerfile w appPath = defaultDockerfile))
       \<and> hasPrefix nodeDockerfile ''FROM node:18-alpine''
       \<and> hasPrefix pythonDockerfile ''FROM python:3.11-slim''
       \<and> hasPrefix goDockerfile ''FROM golang:1.21-alpine AS builder''
       \<and> hasPrefix defaultDockerfile ''FROM alpine:latest''"
proof -
  have "let marker = (\<lambda>file. w_stat w (w_filepathJoin w [appPath, file]) \<noteq> None)
        in (marker ''package.json'' \<longrightarrow> createDockerfile w appPath = nodeDockerfile)
         \<and> (\<not> marker ''package.json'' \<and> marker ''requirements.txt'' \<longrightarrow>
              createDockerfile w appPath = pythonDockerfile)
         \<and> (\<not> marker ''package.json'' \<and> \<not> marker ''requirements.txt'' \<and> marker ''go.mod'' \<longrightarrow>
              createDockerfile w appPath = goDockerfile)
         \<and> (\<not> marker ''package.json'' \<and> \<not> marker ''requirements.txt'' \<and> \<not> marker ''go.mod'' \<longrightarrow>
              createDockerfile w appPath = defaultDockerfile)"
    unfolding Let_def createDockerfile_def by simp
  with buildApplication_runs [OF assms, of imageRef appPath envs] dockerfiles_from
  show ?thesis by blast
qed

text \<open>
  Witness for claim C2: with no pack installed the Node project is built by
  \<open>docker build\<close> on the Node template alone; with a pack that fails, the failed pack
  build is followed by the same \<open>docker build\<close>.
\<close>

theorem buildApplication_fallback_witness:
  "findPackCLI exampleWorld initState = ('''', initState)
   \<and> fst (buildApplication exampleWorld ''.'' ''myapp:latest'' [] initState) = None
   \<and> trace (snd (buildApplication exampleWorld ''.'' ''myapp:latest'' [] initState)) =
       [(Run ''docker'' (dockerBuildArgs ''myapp:latest'' ''.'') nodeDockerfile, True)]
   \<and> findPackCLI packFailsWorld initState = (''/usr/bin/pack'', initState)
   \<and> fst (buildApplication packFailsWorld ''.'' ''myapp:latest'' [] initState) = None
   \<and> trace (snd (buildApplication packFailsWorld ''.'' ''myapp:latest'' [] initState)) =
       [(Run ''/usr/bin/pack'' (packBuildArgs ''myapp:latest'' ''.'' []) '''', False),
        (Run ''docker'' (dockerBuildArgs ''myapp:latest'' ''.'') nodeDockerfile, True)]"
proof -
  have a: "findPackCLI exampleWorld initState = ('''', initState)"
    by (simp add: findPackCLI_def findBundledPack_def exampleWorld_def Let_def)
  have b: "findPackCLI packFailsWorld initState = (''/usr/bin/pack'', initState)"
    by (simp add: findPackCLI_def findBundledPack_def packFailsWorld_def exampleWorld_def Let_def)
  have c: "w_stat exampleWorld (w_filepathJoin exampleWorld [''.'', ''package.json'']) \<noteq> None"
    "w_stat packFailsWorld (w_filepathJoin packFailsWorld [''.'', ''package.json'']) \<noteq> None"
    by (simp_all add: packFailsWorld_def exampleWorld_def)
  have d: "w_exec exampleWorld []
             (Run ''docker'' (dockerBuildArgs ''myapp:latest'' ''.'') nodeDockerfile) = Inr ''''"
    by (simp add: exampleWorld_def exampleExec_def)
  have e: "w_exec packFailsWorld []
             (Run ''/usr/bin/pack'' (packBuildArgs ''myapp:latest'' ''.'' []) '''') = Inl ''exit status 1''"
    "w_exec packFailsWorld
       [(Run ''/usr/bin/pack'' (packBuildArgs ''myapp:latest'' ''.'' []) '''', False)]
       (Run ''docker'' (dockerBuildArgs ''myapp:latest'' ''.'') nodeDockerfile) = Inr ''''"
    by (simp_all add: packFailsWorld_def exampleWorld_def exampleExec_def)
  have t: "trace initState = []"
    by (simp add: initState_def)
  from buildApplication_fallback [OF a, of "''myapp:latest''" "''.''" "[]"] c(1)
  have n1: "createDockerfile exampleWorld ''.'' = nodeDockerfile"
    by (simp add: Let_def)
  from buildApplication_fallback [OF b, of "''myapp:latest''" "''.''" "[]"] c(2)
  have n2: "createDockerfile packFailsWorld ''.'' = nodeDockerfile"
    by (simp add: Let_def)
  from buildApplication_fallback [OF a, of "''myapp:latest''" "''.''" "[]"]
  have r1: "fst (buildApplication exampleWorld ''.'' ''myapp:latest'' [] initState) = None
      \<and> trace (snd (buildApplication exampleWorld ''.'' ''myapp:latest'' [] initState)) =
          [(Run ''docker'' (dockerBuildArgs ''myapp:latest'' ''.'') nodeDockerfile, True)]"
    by (simp add: Let_def n1 d t)
  from buildApplication_fallback [OF b, of "''myapp:latest''" "''.''" "[]"]
  have r2: "fst (buildApplication packFailsWorld ''.'' ''myapp:latest'' [] initState) = None
      \<and> trace (snd (buildApplication packFailsWorld ''.'' ''myapp:latest'' [] initState)) =
          [(Run ''/usr/bin/pack'' (packBuildArgs ''myapp:latest'' ''.'' []) '''', False),
           (Run ''docker'' (dockerBuildArgs ''myapp:latest'' ''.'') nodeDockerfile, True)]"
    by (simp add: Let_def n2 e t)
  from a b r1 r2 show ?thesis by simp
qed

section \<open>Deploy stage: the service descriptor\<close>

text \<open>
  Claim C7. For every project name, image reference, namespace, resource strings,
  environment map and port, the rendered service descriptor contains, under the
  annotations of the template, the line \<open>autoscaling.knative.dev/minScale: "1"\<close>: at least
  one warm instance. \<open>knServiceApply\<close> performs exactly one action: it runs
  \<open>kubectl apply -f -\<close> (preceded by \<open>--context\<close> and the context when one is given) with
  that descriptor on standard input; \<open>kubectl apply\<close> creates the service when it is
  absent and updates it when it is present.
\<close>

theorem newKnServiceYAML_minScale:
  \<open>containsStr (newKnServiceYAML name img ns cpu mem env port)
      (''      annotations:'' @ nl @ ''        autoscaling.knative.dev/minScale: "1"'' @ nl)
   \<and> trace (snd (knServiceApply w name img ns cpu mem env kubecontext port st)) =
       trace st @
       [(Run ''kubectl''
           ((if kubecontext = '''' then [] else [''--context'', kubecontext]) @ [''apply'', ''-f'', ''-''])
           (newKnServiceYAML name img ns cpu mem env port),
         fst (knServiceApply w name img ns cpu mem env kubecontext port st) = None)]\<close>
proof -
  define pre where
    "pre = ''apiVersion: serving.knative.dev/v1'' @ nl @ ''kind: Service'' @ nl @ ''metadata:'' @ nl
           @ ''  name: '' @ name @ nl @ ''  namespace: '' @ ns @ nl @ ''spec:'' @ nl
           @ ''  template:'' @ nl @ ''    metadata:'' @ nl"
  obtain post where
    y: \<open>newKnServiceYAML name img ns cpu mem env port =
          pre @ (''      annotations:'' @ nl @ ''        autoscaling.knative.dev/minScale: "1"'' @ nl) @ post\<close>
    by (simp add: newKnServiceYAML_def pre_def Let_def)
  have \<open>containsStr (newKnServiceYAML name img ns cpu mem env port)
          (''      annotations:'' @ nl @ ''        autoscaling.knative.dev/minScale: "1"'' @ nl)\<close>
    unfolding y by (rule containsStr_infix)
  then show ?thesis
    by (simp add: knServiceApply_def Let_def cmdRun_trace)
qed

section \<open>Push stage: the unguarded index\<close>

lemma tagLocalImage_remote:
  "containsStr imageRef ''.dkr.ecr.'' \<Longrightarrow>
   tagLocalImage w accountID region imageRef st = (Inr imageRef, st)"
  by (simp add: tagLocalImage_def)

lemma pushTagged_panics:
  "CHR ''/'' \<notin> set imageRef \<Longrightarrow>
   pushTagged w region imageRef st =
     (Panicked ''runtime error: index out of range [1] with length 1'', st)"
  by (simp add: pushTagged_def Split_no_sep Let_def natToString.simps digitChar_def)

text \<open>
  Claim C10. The push stage is not total at the push command: the guard
  \<open>len(parts) < 1\<close> is false for every string and separator, so its error branch is never
  taken; and for every image reference that contains the marker \<open>.dkr.ecr.\<close> but no
  \<open>/\<close>, once the account identity has been resolved to a non-empty id, the extraction of
  the repository name indexes a slice of length one at 1 and the command panics.
\<close>

theorem dockerPushWithECRLogin_panics:
  "(\<forall>s sep. \<not> length (Split s sep) < 1)
   \<and> (containsStr imageRef ''.dkr.ecr.'' \<and> CHR ''/'' \<notin> set imageRef
        \<and> w_exec w (trace st) (Output ''aws'' stsArgs) = Inr out \<and> TrimSpace out \<noteq> ''''
      \<longrightarrow> fst (pushRunE w imageRef st) = Panicked ''runtime error: index out of range [1] with length 1'')"
proof -
  have guard: "\<forall>s sep. \<not> length (Split s sep) < 1"
    by simp
  have "fst (pushRunE w imageRef st) = Panicked ''runtime error: index out of range [1] with length 1''"
    if m: "containsStr imageRef ''.dkr.ecr.''" and s: "CHR ''/'' \<notin> set imageRef"
      and o: "w_exec w (trace st) (Output ''aws'' stsArgs) = Inr out" and a: "TrimSpace out \<noteq> ''''"
  proof -
    from m have ne: "imageRef \<noteq> ''''" by auto
    show ?thesis
      using o a ne
      by (simp add: pushRunE_def dockerPushWithECRLogin_def Let_def cmdOutput_def exec_def
                    tagLocalImage_remote [OF m] pushTagged_panics [OF s])
  qed
  with guard show ?thesis by blast
qed

text \<open>
  Witness for claim C10: pushing the reference
  \<open>123456789012.dkr.ecr.us-east-1.amazonaws.com\<close>, which names a registry host and no
  repository, panics.
\<close>

theorem dockerPushWithECRLogin_panics_witness:
  "containsStr ''123456789012.dkr.ecr.us-east-1.amazonaws.com'' ''.dkr.ecr.''
   \<and> CHR ''/'' \<notin> set ''123456789012.dkr.ecr.us-east-1.amazonaws.com''
   \<and> w_exec exampleWorld (trace initState) (Output ''aws'' stsArgs) = Inr (''123456789012'' @ nl)
   \<and> TrimSpace (''123456789012'' @ nl) \<noteq> ''''
   \<and> fst (pushRunE exampleWorld ''123456789012.dkr.ecr.us-east-1.amazonaws.com'' initState)
       = Panicked ''runtime error: index out of range [1] with length 1''"
  using dockerPushWithECRLogin_panics
          [of "''123456789012.dkr.ecr.us-east-1.amazonaws.com''" exampleWorld initState
              "''123456789012'' @ nl"]
  by (simp add: exampleWorld_def exampleExec_def initState_def TrimSpace_def isSpace1_def isSpace2_def isSpace3_def nl_def)


section \<open>Push stage: the order of the steps\<close>



text \<open>
  What running in order means: a run that has not gone through ends with a failed action;
  a run that has gone through has one successful action for each step; and a failed
  action that is not the last one of the run is the check of an \<open>Ensure\<close> step.
\<close>

lemma runInOrder_failed_last:
  "\<not> snd (runInOrder w t steps) \<Longrightarrow>
   fst (runInOrder w t steps) \<noteq> [] \<and> \<not> snd (last (fst (runInOrder w t steps)))"
proof (induction steps arbitrary: t)
  case Nil
  then show ?case by simp
next
  case (Cons s rest)
  then show ?case
    by (cases s) (auto simp: split_beta split: if_splits)
qed

lemma runInOrder_through_all_ok:
  "snd (runInOrder w t steps) \<Longrightarrow>
   length (filter snd (fst (runInOrder w t steps))) = length steps"
proof (induction steps arbitrary: t)
  case Nil
  then show ?case by simp
next
  case (Cons s rest)
  then show ?case
    by (cases s) (auto simp: split_beta split: if_splits)
qed

lemma runInOrder_failed_inside:
  "(a, False) \<in> set (butlast (fst (runInOrder w t steps))) \<Longrightarrow> \<exists>b. Ensure a b \<in> set steps"
proof (induction steps arbitrary: t)
  case Nil
  then show ?case by simp
next
  case (Cons s rest)
  then show ?case
    by (cases s) (auto simp: split_beta split: if_splits)
qed




lemmas push_eval =
  dockerPushWithECRLogin_def pushTagged_def loginAndPush_def dockerPush_def tagLocalImage_def
  awsRegion_def cmdRun_def cmdOutput_def exec_def printf_def
  Split_def TrimSpace_def isSpace1_def isSpace2_def isSpace3_def ecrImageRefOf_def stsArgs_def
  nl_def Let_def exampleWorld_def exampleExec_def initState_def



section \<open>The deploy command: attachments and report\<close>

lemma deployPrimary_InrE:
  assumes "deployPrimary w fl st = (Inr (p, i, n), st')"
  obtains st3 st4 st5 r where
    "knServiceApply w p i n (flag_cpu fl) (flag_mem fl) (toEnvMap (flag_envs fl))
       (flag_kubecontext fl) (flag_port fl) st3 = (None, st4)"
    "configureECRPullPermissions w p n (flag_kubecontext fl)
       (printf (''Configuring ECR pull permissions...'' @ nl) st4) = (r, st5)"
    "trace st' = trace st5"
  using assms
  by (auto simp: deployPrimary_def Let_def
        split: sum.splits prod.splits option.splits outcome.splits)

lemma knServiceApply_None_trace:
  assumes "knServiceApply w name img ns cpu mem env kubecontext port st = (None, st')"
  shows "trace st' = trace st @
           [(Run ''kubectl''
               ((if kubecontext = '''' then [] else [''--context'', kubecontext]) @ [''apply'', ''-f'', ''-''])
               (newKnServiceYAML name img ns cpu mem env port), True)]"
proof (cases "kubecontext = ''''")
  case True
  with assms show ?thesis
    by (auto simp: knServiceApply_def cmdRun_def exec_def Let_def split: sum.splits)
next
  case False
  with assms show ?thesis
    by (auto simp: knServiceApply_def cmdRun_def exec_def Let_def split: sum.splits)
qed

lemma configureECRPullPermissions_trace:
  assumes "configureECRPullPermissions w p n c st = (r, st')"
  shows "trace st' = trace st @ [(ConfigureECRPullPermissions p n c, r = None)]"
  using assms
  by (cases "w_exec w (trace st) (ConfigureECRPullPermissions p n c)")
     (auto simp: configureECRPullPermissions_def exec_def)

lemma deployPrimary_applied:
  assumes "fst (deployPrimary w fl st) = Inr (projectName, imageRef, ns)"
  shows "\<exists>args y. (Run ''kubectl'' args y, True) \<in> set (trace (snd (deployPrimary w fl st)))"
proof -
  obtain st' where p: "deployPrimary w fl st = (Inr (projectName, imageRef, ns), st')"
    using assms by (cases "deployPrimary w fl st") auto
  have "\<exists>args y. (Run ''kubectl'' args y, True) \<in> set (trace st')"
  proof (rule deployPrimary_InrE [OF p])
    fix st3 st4 st5 r
    assume k: "knServiceApply w projectName imageRef ns (flag_cpu fl) (flag_mem fl)
                 (toEnvMap (flag_envs fl)) (flag_kubecontext fl) (flag_port fl) st3 = (None, st4)"
      and c: "configureECRPullPermissions w projectName ns (flag_kubecontext fl)
                 (printf (''Configuring ECR pull permissions...'' @ nl) st4) = (r, st5)"
      and t: "trace st' = trace st5"
    have "(Run ''kubectl''
             ((if flag_kubecontext fl = '''' then [] else [''--context'', flag_kubecontext fl])
              @ [''apply'', ''-f'', ''-''])
             (newKnServiceYAML projectName imageRef ns (flag_cpu fl) (flag_mem fl)
                (toEnvMap (flag_envs fl)) (flag_port fl)), True) \<in> set (trace st')"
      unfolding t configureECRPullPermissions_trace [OF c] trace_printf
        knServiceApply_None_trace [OF k]
      by simp
    then show ?thesis by (intro exI)
  qed
  with p show ?thesis by simp
qed

lemma attachDatabaseStep_fails:
  assumes "flag_dbHost fl \<noteq> ''''"
    and "fst (attachDatabase w projectName ns (flag_dbUser fl) (flag_dbPassword fl)
               (flag_dbHost fl) (flag_dbPort fl) (flag_dbName fl) (flag_kubecontext fl)
               (printf (''Attaching database...'' @ nl) st)) = Some e"
  shows "fst (attachDatabaseStep w fl projectName ns st) = Some (''database attach failed: '' @ e)"
  using assms by (auto simp: attachDatabaseStep_def split: prod.splits option.splits)

lemma attachRedisStep_fails:
  assumes "flag_redisHost fl \<noteq> ''''"
    and "fst (attachRedis w projectName ns (flag_redisHost fl) (flag_redisPort fl)
               (flag_redisPassword fl) (flag_kubecontext fl)
               (printf (''Attaching Redis...'' @ nl) st)) = Some e"
  shows "fst (attachRedisStep w fl projectName ns st) = Some (''redis attach failed: '' @ e)"
  using assms by (auto simp: attachRedisStep_def split: prod.splits option.splits)

lemma attachSecretsStep_fails:
  assumes "length (flag_secrets fl) > 0"
    and "fst (createSecrets w projectName ns (flag_secrets fl) (flag_kubecontext fl)
               (printf (''Creating secrets...'' @ nl) st)) = Some e"
  shows "fst (attachSecretsStep w fl projectName ns st) = Some (''secrets creation failed: '' @ e)"
  using assms by (auto simp: attachSecretsStep_def split: prod.splits option.splits)

lemma deployRunE_attach:
  assumes "fst (deployPrimary w fl st) = Inr (projectName, imageRef, ns)"
  shows "deployRunE w fl st =
     (let st1 = snd (deployPrimary w fl st);
          db = attachDatabaseStep w fl projectName ns st1
      in case fst db of
           Some err \<Rightarrow> (Failure err, snd db)
         | None \<Rightarrow>
             (let redis = attachRedisStep w fl projectName ns (snd db)
              in case fst redis of
                   Some err \<Rightarrow> (Failure err, snd redis)
                 | None \<Rightarrow>
                     (let secrets = attachSecretsStep w fl projectName ns (snd redis)
                      in case fst secrets of
                           Some err \<Rightarrow> (Failure err, snd secrets)
                         | None \<Rightarrow> deployReporting w fl projectName imageRef ns (snd secrets))))"
proof -
  obtain st1 where p: "deployPrimary w fl st = (Inr (projectName, imageRef, ns), st1)"
    using assms by (cases "deployPrimary w fl st") auto
  show ?thesis
    by (simp add: deployRunE_def deployAttach_def p Let_def split: prod.splits option.splits)
qed

lemmas deploy_eval =
  deployRunE_def deployPrimary_def deployAttach_def deployReporting_def
  attachDatabaseStep_def attachRedisStep_def attachSecretsStep_def
  attachDatabase_def attachRedis_def createSecrets_def applySecret_def getClient_def newClientset_def
  configureECRPullPermissions_def knServiceApply_def
  buildApplication_def buildWithDocker_def findPackCLI_def findBundledPack_def
  generateImageRef_def getProjectName_def report_def errorOf_def succeeded_def toEnvMap_def
  redisFlags_def reportFlags_def exampleFlags_def push_eval

text \<open>
  Claim C1, as stated, fails: in a run where every stage succeeds and the service
  descriptor is applied, but the cluster refuses to create the database secret, the
  deploy command returns the error \<open>database attach failed: forbidden\<close>, not success.
\<close>

theorem deploy_attach_failure_counterexample:
  "fst (deployPrimary secretsForbiddenWorld exampleFlags initState) =
     Inr (''myapp'', ''123456789012.dkr.ecr.us-east-1.amazonaws.com/myapp:latest'', ''default'')
   \<and> fst (deployRunE secretsForbiddenWorld exampleFlags initState) =
       Failure ''database attach failed: forbidden''"
  by (simp add: secretsForbiddenWorld_def deploy_eval)

text \<open>
  Claim C1, amended. If the primary stages succeed, so that the service descriptor has
  been applied, and a requested attachment step then fails (\<open>attachDatabase\<close> when a
  database host is given, \<open>attachRedis\<close> when a cache host is given, \<open>createSecrets\<close> when
  secrets are given, each after the steps before it went through), the deploy command
  stops at that step and returns an error that wraps the step's error: \<open>database attach
  failed: ...\<close>, \<open>redis attach failed: ...\<close> or \<open>secrets creation failed: ...\<close>. The final
  state is the state after the failing step: no later attachment and no report is run.
\<close>

theorem deploy_attachment_failure_fails_run:
  assumes "fst (deployPrimary w fl st) = Inr (projectName, imageRef, ns)"
  shows "let st1 = snd (deployPrimary w fl st);
             st2 = snd (attachDatabaseStep w fl projectName ns st1);
             st3 = snd (attachRedisStep w fl projectName ns st2)
         in (\<exists>args y. (Run ''kubectl'' args y, True) \<in> set (trace st1))
          \<and> (\<forall>e. flag_dbHost fl \<noteq> ''''
                \<and> fst (attachDatabase w projectName ns (flag_dbUser fl) (flag_dbPassword fl)
                         (flag_dbHost fl) (flag_dbPort fl) (flag_dbName fl) (flag_kubecontext fl)
                         (printf (''Attaching database...'' @ nl) st1)) = Some e
                \<longrightarrow> deployRunE w fl st = (Failure (''database attach failed: '' @ e), st2))
          \<and> (\<forall>e. fst (attachDatabaseStep w fl projectName ns st1) = None
                \<and> flag_redisHost fl \<noteq> ''''
                \<and> fst (attachRedis w projectName ns (flag_redisHost fl) (flag_redisPort fl)
                         (flag_redisPassword fl) (flag_kubecontext fl)
                         (printf (''Attaching Redis...'' @ nl) st2)) = Some e
                \<longrightarrow> deployRunE w fl st = (Failure (''redis attach failed: '' @ e), st3))
          \<and> (\<forall>e. fst (attachDatabaseStep w fl projectName ns st1) = None
                \<and> fst (attachRedisStep w fl projectName ns st2) = None
                \<and> length (flag_secrets fl) > 0
                \<and> fst (createSecrets w projectName ns (flag_secrets fl) (flag_kubecontext fl)
                         (printf (''Creating secrets...'' @ nl) st3)) = Some e
                \<longrightarrow> deployRunE w fl st =
                      (Failure (''secrets creation failed: '' @ e),
                       snd (attachSecretsStep w fl projectName ns st3)))"
  unfolding Let_def
proof (intro conjI allI impI)
  show "\<exists>args y. (Run ''kubectl'' args y, True) \<in> set (trace (snd (deployPrimary w fl st)))"
    by (rule deployPrimary_applied [OF assms])
next
  fix e
  assume "flag_dbHost fl \<noteq> ''''
      \<and> fst (attachDatabase w projectName ns (flag_dbUser fl) (flag_dbPassword fl)
               (flag_dbHost fl) (flag_dbPort fl) (flag_dbName fl) (flag_kubecontext fl)
               (printf (''Attaching database...'' @ nl) (snd (deployPrimary w fl st)))) = Some e"
  then have "fst (attachDatabaseStep w fl projectName ns (snd (deployPrimary w fl st)))
               = Some (''database attach failed: '' @ e)"
    by (simp add: attachDatabaseStep_fails)
  then show "deployRunE w fl st =
      (Failure (''database attach failed: '' @ e),
       snd (attachDatabaseStep w fl projectName ns (snd (deployPrimary w fl st))))"
    by (simp add: deployRunE_attach [OF assms] Let_def)
next
  fix e
  assume "fst (attachDatabaseStep w fl projectName ns (snd (deployPrimary w fl st))) = None
      \<and> flag_redisHost fl \<noteq> ''''
      \<and> fst (attachRedis w projectName ns (flag_redisHost fl) (flag_redisPort fl)
               (flag_redisPassword fl) (flag_kubecontext fl)
               (printf (''Attaching Redis...'' @ nl)
                  (snd (attachDatabaseStep w fl projectName ns (snd (deployPrimary w fl st)))))) = Some e"
  then have "fst (attachDatabaseStep w fl projectName ns (snd (deployPrimary w fl st))) = None"
    and "fst (attachRedisStep w fl projectName ns
               (snd (attachDatabaseStep w fl projectName ns (snd (deployPrimary w fl st)))))
           = Some (''redis attach failed: '' @ e)"
    by (simp_all add: attachRedisStep_fails)
  then show "deployRunE w fl st =
      (Failure (''redis attach failed: '' @ e),
       snd (attachRedisStep w fl projectName ns
              (snd (attachDatabaseStep w fl projectName ns (snd (deployPrimary w fl st))))))"
    by (simp add: deployRunE_attach [OF assms] Let_def)
next
  fix e
  assume "fst (attachDatabaseStep w fl projectName ns (snd (deployPrimary w fl st))) = None
      \<and> fst (attachRedisStep w fl projectName ns
               (snd (attachDatabaseStep w fl projectName ns (snd (deployPrimary w fl st))))) = None
      \<and> length (flag_secrets fl) > 0
      \<and> fst (createSecrets w projectName ns (flag_secrets fl) (flag_kubecontext fl)
               (printf (''Creating secrets...'' @ nl)
                  (snd (attachRedisStep w fl projectName ns
                     (snd (attachDatabaseStep w fl projectName ns (snd (deployPrimary w fl st)))))))) = Some e"
  then have "fst (attachDatabaseStep w fl projectName ns (snd (deployPrimary w fl st))) = None"
    and "fst (attachRedisStep w fl projectName ns
               (snd (attachDatabaseStep w fl projectName ns (snd (deployPrimary w fl st))))) = None"
    and "fst (attachSecretsStep w fl projectName ns
               (snd (attachRedisStep w fl projectName ns
                  (snd (attachDatabaseStep w fl projectName ns (snd (deployPrimary w fl st)))))))
           = Some (''secrets creation failed: '' @ e)"
    by (simp_all add: attachSecretsStep_fails)
  then show "deployRunE w fl st =
      (Failure (''secrets creation failed: '' @ e),
       snd (attachSecretsStep w fl projectName ns
              (snd (attachRedisStep w fl projectName ns
                 (snd (attachDatabaseStep w fl projectName ns (snd (deployPrimary w fl st))))))))"
    by (simp add: deployRunE_attach [OF assms] Let_def)
qed

text \<open>
  Witness for claim C1: only a cache is requested and the cluster refuses to create its
  secret; the primary stages succeed, the database step is skipped, and the command
  returns \<open>redis attach failed: forbidden\<close>.
\<close>

theorem deploy_attachment_failure_fails_run_witness:
  "fst (deployPrimary secretsForbiddenWorld redisFlags initState) =
     Inr (''myapp'', ''123456789012.dkr.ecr.us-east-1.amazonaws.com/myapp:latest'', ''default'')
   \<and> fst (attachDatabaseStep secretsForbiddenWorld redisFlags ''myapp'' ''default''
            (snd (deployPrimary secretsForbiddenWorld redisFlags initState))) = None
   \<and> flag_redisHost redisFlags \<noteq> ''''
   \<and> fst (attachRedis secretsForbiddenWorld ''myapp'' ''default'' (flag_redisHost redisFlags)
            (flag_redisPort redisFlags) (flag_redisPassword redisFlags) (flag_kubecontext redisFlags)
            (printf (''Attaching Redis...'' @ nl)
               (snd (attachDatabaseStep secretsForbiddenWorld redisFlags ''myapp'' ''default''
                  (snd (deployPrimary secretsForbiddenWorld redisFlags initState)))))) = Some ''forbidden''
   \<and> fst (deployRunE secretsForbiddenWorld redisFlags initState) = Failure ''redis attach failed: forbidden''"
proof -
  have p: "fst (deployPrimary secretsForbiddenWorld redisFlags initState) =
     Inr (''myapp'', ''123456789012.dkr.ecr.us-east-1.amazonaws.com/myapp:latest'', ''default'')"
    by (simp add: secretsForbiddenWorld_def deploy_eval)
  have d: "fst (attachDatabaseStep secretsForbiddenWorld redisFlags ''myapp'' ''default''
            (snd (deployPrimary secretsForbiddenWorld redisFlags initState))) = None"
    by (simp add: attachDatabaseStep_def redisFlags_def exampleFlags_def)
  have h: "flag_redisHost redisFlags \<noteq> ''''"
    by (simp add: redisFlags_def exampleFlags_def)
  have r: "fst (attachRedis secretsForbiddenWorld ''myapp'' ''default'' (flag_redisHost redisFlags)
            (flag_redisPort redisFlags) (flag_redisPassword redisFlags) (flag_kubecontext redisFlags)
            (printf (''Attaching Redis...'' @ nl)
               (snd (attachDatabaseStep secretsForbiddenWorld redisFlags ''myapp'' ''default''
                  (snd (deployPrimary secretsForbiddenWorld redisFlags initState)))))) = Some ''forbidden''"
    by (simp add: attachRedis_def getClient_def newClientset_def applySecret_def exec_def
          secretsForbiddenWorld_def exampleWorld_def exampleExec_def errorOf_def Let_def)
  from deploy_attachment_failure_fails_run [OF p] d h r
  have "fst (deployRunE secretsForbiddenWorld redisFlags initState) = Failure ''redis attach failed: forbidden''"
    by (simp add: Let_def)
  with p d h r show ?thesis by simp
qed

lemma deployReporting_outcome:
  "fst (deployReporting w fl projectName imageRef ns st) = Success"
  by (simp add: deployReporting_def Let_def)

lemma deployReporting_skipped:
  "flag_serverURL fl = '''' \<Longrightarrow> trace (snd (deployReporting w fl projectName imageRef ns st)) = trace st"
  by (simp add: deployReporting_def Let_def)

lemma deployReporting_posted:
  "flag_serverURL fl \<noteq> '''' \<Longrightarrow>
   \<exists>body ok. trace (snd (deployReporting w fl projectName imageRef ns st)) =
     trace st @
     [(Run ''curl'' [''-sS'', ''-X'', ''POST'', ''-H'', ''Content-Type: application/json'',
                     ''-d'', body, flag_serverURL fl @ ''/deployments''] '''', ok)]"
  by (simp add: deployReporting_def report_def Let_def cmdRun_trace)

text \<open>
  Claim C9. Every run of the deploy command that reaches the reporting step (the primary
  stages and the attachments went through) ends in success, in every world and so
  whether the tracking POST succeeds or fails: the error of \<open>report\<close> is discarded. When
  no server is configured the step performs no action; when one is configured it performs
  exactly one, the \<open>curl\<close> POST to the server's \<open>/deployments\<close>.
\<close>

theorem deploy_report_never_affects_outcome:
  assumes "fst (deployPrimary w fl st) = Inr (projectName, imageRef, ns)"
    and "fst (deployAttach w fl projectName ns (snd (deployPrimary w fl st))) = None"
  shows "let st2 = snd (deployAttach w fl projectName ns (snd (deployPrimary w fl st)))
         in fst (deployRunE w fl st) = Success
          \<and> (flag_serverURL fl = '''' \<longrightarrow> trace (snd (deployRunE w fl st)) = trace st2)
          \<and> (flag_serverURL fl \<noteq> '''' \<longrightarrow>
               (\<exists>body ok. trace (snd (deployRunE w fl st)) =
                   trace st2 @
                   [(Run ''curl'' [''-sS'', ''-X'', ''POST'', ''-H'', ''Content-Type: application/json'',
                                   ''-d'', body, flag_serverURL fl @ ''/deployments''] '''', ok)]))"
proof -
  obtain st1 where p: "deployPrimary w fl st = (Inr (projectName, imageRef, ns), st1)"
    using assms(1) by (cases "deployPrimary w fl st") auto
  obtain st2 where a: "deployAttach w fl projectName ns st1 = (None, st2)"
    using assms(2) p by (cases "deployAttach w fl projectName ns st1") auto
  have r: "deployRunE w fl st = deployReporting w fl projectName imageRef ns st2"
    using p a by (simp add: deployRunE_def)
  show ?thesis
    unfolding Let_def r p a snd_conv
    using deployReporting_outcome deployReporting_skipped deployReporting_posted
    by blast
qed

text \<open>
  Witness for claim C9: with a tracking server configured, the run ends in success both
  in the world where the POST succeeds and in the world where it fails; the last action
  of the run is the POST, recorded as succeeded in the first and failed in the second.
\<close>

theorem deploy_report_never_affects_outcome_witness:
  "fst (deployPrimary exampleWorld reportFlags initState) =
     Inr (''myapp'', ''123456789012.dkr.ecr.us-east-1.amazonaws.com/myapp:latest'', ''default'')
   \<and> fst (deployAttach exampleWorld reportFlags ''myapp'' ''default''
            (snd (deployPrimary exampleWorld reportFlags initState))) = None
   \<and> fst (deployRunE exampleWorld reportFlags initState) = Success
   \<and> snd (last (trace (snd (deployRunE exampleWorld reportFlags initState)))) = True
   \<and> fst (deployPrimary reportFailsWorld reportFlags initState) =
     Inr (''myapp'', ''123456789012.dkr.ecr.us-east-1.amazonaws.com/myapp:latest'', ''default'')
   \<and> fst (deployAttach reportFailsWorld reportFlags ''myapp'' ''default''
            (snd (deployPrimary reportFailsWorld reportFlags initState))) = None
   \<and> fst (deployRunE reportFailsWorld reportFlags initState) = Success
   \<and> snd (last (trace (snd (deployRunE reportFailsWorld reportFlags initState)))) = False"
proof -
  have p1: "fst (deployPrimary exampleWorld reportFlags initState) =
     Inr (''myapp'', ''123456789012.dkr.ecr.us-east-1.amazonaws.com/myapp:latest'', ''default'')"
    by (simp add: deploy_eval)
  have a1: "fst (deployAttach exampleWorld reportFlags ''myapp'' ''default''
            (snd (deployPrimary exampleWorld reportFlags initState))) = None"
    by (simp add: deploy_eval)
  have l1: "snd (last (trace (snd (deployRunE exampleWorld reportFlags initState)))) = True"
    by (simp add: deploy_eval)
  have p2: "fst (deployPrimary reportFailsWorld reportFlags initState) =
     Inr (''myapp'', ''123456789012.dkr.ecr.us-east-1.amazonaws.com/myapp:latest'', ''default'')"
    by (simp add: reportFailsWorld_def deploy_eval)
  have a2: "fst (deployAttach reportFailsWorld reportFlags ''myapp'' ''default''
            (snd (deployPrimary reportFailsWorld reportFlags initState))) = None"
    by (simp add: reportFailsWorld_def deploy_eval)
  have l2: "snd (last (trace (snd (deployRunE reportFailsWorld reportFlags initState)))) = False"
    by (simp add: reportFailsWorld_def deploy_eval)
  from deploy_report_never_affects_outcome [OF p1 a1]
  have s1: "fst (deployRunE exampleWorld reportFlags initState) = Success"
    by (simp add: Let_def)
  from deploy_report_never_affects_outcome [OF p2 a2]
  have s2: "fst (deployRunE reportFailsWorld reportFlags initState) = Success"
    by (simp add: Let_def)
  from p1 a1 l1 p2 a2 l2 s1 s2 show ?thesis by simp
qed


section \<open>The fix selector\<close>

text \<open>
  Claim C4. The fix selector returns no fix when its input is absent and when the
  candidate list of its input is empty. Its result is a strategy or none; there is no
  error to report.
\<close>

theorem selectBestFix_none:
  "selectBestFix None = None \<and> selectBestFix (Some \<lparr>Pattern = p, Suggestions = []\<rparr>) = None"
  by simp

lemma insort_key_hd:
  "hd (insort_key f x ys) = (if ys = [] \<or> f x \<le> f (hd ys) then x else hd ys)"
  by (cases ys) simp_all

lemma sort_key_nonempty: "xs \<noteq> [] \<Longrightarrow> sort_key f xs \<noteq> []"
  by (cases xs) simp_all

lemma sort_key_hd_first_min:
  fixes f :: "'a \<Rightarrow> real"
  assumes "xs \<noteq> []"
  shows "\<exists>i < length xs. hd (sort_key f xs) = xs ! i
           \<and> (\<forall>j < length xs. f (xs ! i) \<le> f (xs ! j))
           \<and> (\<forall>j < i. f (xs ! i) < f (xs ! j))"
  using assms
proof (induction xs)
  case Nil
  then show ?case by simp
next
  case (Cons x xs)
  show ?case
  proof (cases "xs = []")
    case True
    then show ?thesis by simp
  next
    case False
    from Cons.IH [OF False] obtain i where i: "i < length xs"
      and h: "hd (sort_key f xs) = xs ! i"
      and m: "\<forall>j < length xs. f (xs ! i) \<le> f (xs ! j)"
      and s: "\<forall>j < i. f (xs ! i) < f (xs ! j)"
      by blast
    have ne: "sort_key f xs \<noteq> []" using False by (rule sort_key_nonempty)
    show ?thesis
    proof (cases "f x \<le> f (xs ! i)")
      case True
      have "hd (sort_key f (x # xs)) = (x # xs) ! 0"
        using True h ne by (simp add: insort_key_hd)
      moreover have "\<forall>j < length (x # xs). f ((x # xs) ! 0) \<le> f ((x # xs) ! j)"
      proof (intro allI impI)
        fix j assume "j < length (x # xs)"
        then show "f ((x # xs) ! 0) \<le> f ((x # xs) ! j)"
          using True m by (cases j) (auto intro: order_trans)
      qed
      ultimately show ?thesis by (intro exI [of _ 0]) simp
    next
      case False
      have "hd (sort_key f (x # xs)) = (x # xs) ! Suc i"
        using False h ne by (simp add: insort_key_hd)
      moreover have "\<forall>j < length (x # xs). f ((x # xs) ! Suc i) \<le> f ((x # xs) ! j)"
      proof (intro allI impI)
        fix j assume "j < length (x # xs)"
        then show "f ((x # xs) ! Suc i) \<le> f ((x # xs) ! j)"
          using False m by (cases j) auto
      qed
      moreover have "\<forall>j < Suc i. f ((x # xs) ! Suc i) < f ((x # xs) ! j)"
      proof (intro allI impI)
        fix j assume "j < Suc i"
        then show "f ((x # xs) ! Suc i) < f ((x # xs) ! j)"
          using False s by (cases j) auto
      qed
      ultimately show ?thesis using i by (intro exI [of _ "Suc i"]) simp
    qed
  qed
qed

text \<open>
  Claim C5. For every error with a non-empty candidate list the fix selector returns
  exactly one strategy, a candidate of the list: one whose confidence no candidate
  exceeds, and among the candidates of that highest confidence the one registered first
  (every candidate before it has a strictly lower confidence). For candidates with the
  confidences 0.3, 0.9 and 0.6 it returns the second, the one of confidence 0.9.
\<close>

theorem selectBestFix_highest_confidence:
  "(Suggestions e \<noteq> [] \<longrightarrow>
      (\<exists>i < length (Suggestions e).
          selectBestFix (Some e) = Some (Suggestions e ! i)
          \<and> (\<forall>j < length (Suggestions e). Confidence (Suggestions e ! j) \<le> Confidence (Suggestions e ! i))
          \<and> (\<forall>j < i. Confidence (Suggestions e ! j) < Confidence (Suggestions e ! i))))
   \<and> (map Confidence (Suggestions e) = [0.3, 0.9, 0.6] \<longrightarrow>
        selectBestFix (Some e) = Some (Suggestions e ! 1))"
proof (intro conjI impI)
  assume ne: "Suggestions e \<noteq> []"
  from sort_key_hd_first_min [OF ne, of "\<lambda>s. - Confidence s"]
  obtain i where "i < length (Suggestions e)"
    and "hd (rankByConfidence (Suggestions e)) = Suggestions e ! i"
    and "\<forall>j < length (Suggestions e). Confidence (Suggestions e ! j) \<le> Confidence (Suggestions e ! i)"
    and "\<forall>j < i. Confidence (Suggestions e ! j) < Confidence (Suggestions e ! i)"
    unfolding rankByConfidence_def by auto
  moreover have "selectBestFix (Some e) = Some (hd (rankByConfidence (Suggestions e)))"
    using ne sort_key_nonempty [OF ne, of "\<lambda>s. - Confidence s"]
    by (cases "rankByConfidence (Suggestions e)") (simp_all add: rankByConfidence_def)
  ultimately show "\<exists>i < length (Suggestions e).
          selectBestFix (Some e) = Some (Suggestions e ! i)
          \<and> (\<forall>j < length (Suggestions e). Confidence (Suggestions e ! j) \<le> Confidence (Suggestions e ! i))
          \<and> (\<forall>j < i. Confidence (Suggestions e ! j) < Confidence (Suggestions e ! i))"
    by auto
next
  assume c: "map Confidence (Suggestions e) = [0.3, 0.9, 0.6]"
  then obtain a b c where abc: "Suggestions e = [a, b, c]"
    and "Confidence a = 0.3" "Confidence b = 0.9" "Confidence c = 0.6"
    by auto
  then show "selectBestFix (Some e) = Some (Suggestions e ! 1)"
    by (simp add: rankByConfidence_def)
qed

text \<open>
  Witness for claim C5: of the three candidates \<open>retry_build\<close> (0.3), \<open>docker_fallback\<close>
  (0.9) and \<open>clear_cache\<close> (0.6) the selector returns \<open>docker_fallback\<close>.
\<close>

theorem selectBestFix_highest_confidence_witness:
  "Suggestions exampleError \<noteq> []
   \<and> map Confidence (Suggestions exampleError) = [0.3, 0.9, 0.6]
   \<and> map_option FixStrategy.Name (selectBestFix (Some exampleError)) = Some ''docker_fallback''"
  using selectBestFix_highest_confidence [of exampleError]
  by (simp add: exampleError_def exampleCandidates_def)

end
